theory Spec2Isabelle
  imports Main
begin

section \<open>full\_fred: the request builder \<open>FredBase\<close> (src/full\_fred/fred\_base.py)\<close>

text \<open>
  A shallow embedding of the class \<open>FredBase\<close>. Python strings are modelled as
  \<^typ>\<open>string\<close>, one \<^typ>\<open>char\<close> per code point, so the model covers the strings whose
  code points are below 256. \<open>None\<close> is \<^const>\<open>None\<close> of an option type where the source
  compares with \<open>is None\<close>. Exceptions are values of \<open>py_error\<close>, returned as \<open>Inl\<close>.
  The process environment \<open>os.environ\<close>, the file system and the HTTP service are
  parameters of the functions that read them.
\<close>

subsection \<open>Exceptions, the environment, the file system\<close>

datatype py_error =
    AttributeError
  | TypeError
  | FileNotFoundError
  | IsADirectoryError
  | UnboundLocalError
  | JSONDecodeError

text \<open>\<open>os.environ\<close>: a mapping from names to strings (its values are never \<open>None\<close>).\<close>

type_synonym environ = "string \<rightharpoonup> string"

text \<open>
  A path names nothing, a regular file with its decoded text, or a directory.
\<close>

datatype fs_entry = RegularFile string | Directory

type_synonym filesystem = "string \<rightharpoonup> fs_entry"

text \<open>\<open>os.path.isfile\<close>.\<close>

definition isfile :: "filesystem \<Rightarrow> string \<Rightarrow> bool" where
  "isfile fs p = (case fs p of Some (RegularFile _) \<Rightarrow> True | _ \<Rightarrow> False)"

subsection \<open>The instance\<close>

text \<open>
  The name-mangled attributes \<open>__api_key\<close>, \<open>__api_key_file\<close> and \<open>__api_key_env_var\<close>.
  The other three attributes are assigned once in \<open>__init__\<close> and never again; they are
  constants here.
\<close>

record fred_base =
  api_key :: "string option"
  api_key_file :: "string option"
  api_key_env_var :: bool

definition realtime_start_default :: string where
  "realtime_start_default = ''1776-07-04''"

definition realtime_end_default :: string where
  "realtime_end_default = ''9999-12-31''"

definition url_base :: string where
  "url_base = ''https://api.stlouisfed.org/fred/''"

text \<open>
  \<open>env_api_key_found\<close> has no definition here. Its body (line 74 of the source) opens
  with \<open>elif\<close> and no \<open>if\<close> before it, which is not Python: the source does not say
  what a call of the method returns. The methods that call it, \<open>__init__\<close> and
  \<open>_viable_api_key\<close>, and the methods that call these, take the value of that call
  as the parameter \<open>env_api_key_found\<close>; every statement below either holds for both
  values of it or names the value it needs.
\<close>

text \<open>\<open>set_api_key_file\<close>: the updated instance and the returned \<open>True\<close>, or the exception.\<close>

definition set_api_key_file ::
  "filesystem \<Rightarrow> fred_base \<Rightarrow> string option \<Rightarrow> py_error + (fred_base \<times> bool)" where
  "set_api_key_file fs self a_file =
     (case a_file of
        None \<Rightarrow> Inl TypeError
      | Some p \<Rightarrow>
          if \<not> isfile fs p then Inl FileNotFoundError
          else Inr (self\<lparr>api_key_file := Some p\<rparr>, True))"

text \<open>\<open>__init__\<close>.\<close>

definition init ::
  "bool \<Rightarrow> filesystem \<Rightarrow> string option \<Rightarrow> string option \<Rightarrow> py_error + fred_base" where
  "init env_api_key_found fs a_key a_file =
     (let self = \<lparr>api_key = a_key, api_key_file = a_file, api_key_env_var = False\<rparr>
      in if a_key = None \<and> a_file \<noteq> None then
           (case set_api_key_file fs self a_file of
              Inl e \<Rightarrow> Inl e
            | Inr (self', _) \<Rightarrow> Inr self')
         else if env_api_key_found then Inr (self\<lparr>api_key_env_var := True\<rparr>)
         else Inr self)"

text \<open>
  \<open>_viable_api_key\<close>: the string naming where the key is found, or \<open>AttributeError\<close>
  (the specification's \<open>MissingCredentialError\<close>).
\<close>

definition viable_api_key :: "bool \<Rightarrow> fred_base \<Rightarrow> py_error + string" where
  "viable_api_key env_api_key_found self =
     (if api_key self = None then
        (if api_key_file self = None then
           (if \<not> env_api_key_found then Inl AttributeError
            else Inr ''env'')
         else Inr ''file'')
      else Inr ''attribute'')"

subsection \<open>Python's string operations\<close>

text \<open>\<open>str.isspace\<close> on one character, for the code points below 256.\<close>

definition py_isspace :: "char \<Rightarrow> bool" where
  "py_isspace c =
     (let n = (of_char c :: nat)
      in (9 \<le> n \<and> n \<le> 13) \<or> (28 \<le> n \<and> n \<le> 32) \<or> n = 133 \<or> n = 160)"

text \<open>\<open>str.strip()\<close>: whitespace is removed from both ends.\<close>

definition py_strip :: "string \<Rightarrow> string" where
  "py_strip s = rev (dropWhile py_isspace (rev (dropWhile py_isspace s)))"

text \<open>\<open>str.lower()\<close>, for the code points below 256.\<close>

definition lower_char :: "char \<Rightarrow> char" where
  "lower_char c =
     (let n = (of_char c :: nat)
      in if (65 \<le> n \<and> n \<le> 90) \<or> (192 \<le> n \<and> n \<le> 214) \<or> (216 \<le> n \<and> n \<le> 222)
         then char_of (n + 32) else c)"

definition py_lower :: "string \<Rightarrow> string" where
  "py_lower s = map lower_char s"

text \<open>\<open>s.replace(old, new)\<close> for a one-character \<open>old\<close>.\<close>

definition py_replace :: "char \<Rightarrow> string \<Rightarrow> string \<Rightarrow> string" where
  "py_replace old new s = concat (map (\<lambda>c. if c = old then new else [c]) s)"

text \<open>\<open>sep.join(xs)\<close> on a list of strings.\<close>

fun py_join :: "string \<Rightarrow> string list \<Rightarrow> string" where
  "py_join sep [] = []"
| "py_join sep [x] = x"
| "py_join sep (x # y # ys) = x @ sep @ py_join sep (y # ys)"

text \<open>\<open>sub in s\<close> on strings: \<open>sub\<close> occurs in \<open>s\<close> as a contiguous part.\<close>

fun py_in :: "string \<Rightarrow> string \<Rightarrow> bool" where
  "py_in sub [] = (sub = [])"
| "py_in sub (c # cs) = (take (length sub) (c # cs) = sub \<or> py_in sub cs)"

text \<open>
  \<open>readline()\<close> on a file opened in text mode at its start: the text up to the first
  line break, which is returned as one line feed whether the file has a line feed, a
  carriage return or both there.
\<close>

fun readline :: "string \<Rightarrow> string" where
  "readline [] = []"
| "readline (c # cs) =
     (if c = CHR 0x0A \<or> c = CHR 0x0D then [CHR 0x0A] else c # readline cs)"

subsection \<open>Python values and their \<open>str\<close>\<close>

text \<open>The values a parameter table holds.\<close>

datatype pyval =
    PyNone
  | PyBool bool
  | PyInt int
  | PyStr string
  | PyList "pyval list"

definition hex_digits :: string where
  "hex_digits = ''0123456789abcdef''"

fun digits_nat :: "nat \<Rightarrow> string" where
  "digits_nat n =
     (if n < 10 then [hex_digits ! n]
      else digits_nat (n div 10) @ [hex_digits ! (n mod 10)])"

declare digits_nat.simps [simp del]

definition str_int :: "int \<Rightarrow> string" where
  "str_int i = (if i < 0 then ''-'' @ digits_nat (nat (- i)) else digits_nat (nat i))"

text \<open>\<open>str.isprintable\<close> on one character, for the code points below 256.\<close>

definition py_isprintable :: "char \<Rightarrow> bool" where
  "py_isprintable c =
     (let n = (of_char c :: nat)
      in (32 \<le> n \<and> n \<le> 126) \<or> (161 \<le> n \<and> n \<noteq> 173))"

text \<open>\<open>repr\<close> of a string: the quote is chosen by the content, the rest is escaped.\<close>

definition repr_char :: "char \<Rightarrow> char \<Rightarrow> string" where
  "repr_char quote c =
     (if c = quote \<or> c = CHR 0x5C then [CHR 0x5C, c]
      else if c = CHR 0x09 then [CHR 0x5C, CHR ''t'']
      else if c = CHR 0x0A then [CHR 0x5C, CHR ''n'']
      else if c = CHR 0x0D then [CHR 0x5C, CHR ''r'']
      else if py_isprintable c then [c]
      else [CHR 0x5C, CHR ''x'',
            hex_digits ! ((of_char c :: nat) div 16), hex_digits ! ((of_char c :: nat) mod 16)])"

definition repr_str :: "string \<Rightarrow> string" where
  "repr_str s =
     (let quote = (if CHR 0x27 \<in> set s \<and> CHR 0x22 \<notin> set s then CHR 0x22 else CHR 0x27)
      in [quote] @ concat (map (repr_char quote) s) @ [quote])"

fun py_repr :: "pyval \<Rightarrow> string" where
  "py_repr PyNone = ''None''"
| "py_repr (PyBool b) = (if b then ''True'' else ''False'')"
| "py_repr (PyInt i) = str_int i"
| "py_repr (PyStr s) = repr_str s"
| "py_repr (PyList xs) = ''['' @ py_join '', '' (map py_repr xs) @ '']''"

text \<open>\<open>str(v)\<close>.\<close>

definition py_str :: "pyval \<Rightarrow> string" where
  "py_str v = (case v of PyStr s \<Rightarrow> s | _ \<Rightarrow> py_repr v)"

subsection \<open>Joining tag names\<close>

text \<open>The strings of a list of values, when every item is a string.\<close>

fun str_items :: "pyval list \<Rightarrow> string list option" where
  "str_items [] = Some []"
| "str_items (PyStr s # vs) = (case str_items vs of None \<Rightarrow> None | Some ss \<Rightarrow> Some (s # ss))"
| "str_items (_ # vs) = None"

text \<open>
  \<open>use_str.join(strings)\<close>: a list of strings is joined, a string is joined character by
  character, and every other value raises \<open>TypeError\<close>, here \<open>None\<close>.
\<close>

definition str_join :: "string \<Rightarrow> pyval \<Rightarrow> string option" where
  "str_join sep v =
     (case v of
        PyStr s \<Rightarrow> Some (py_join sep (map (\<lambda>c. [c]) s))
      | PyList vs \<Rightarrow> (case str_items vs of None \<Rightarrow> None | Some ss \<Rightarrow> Some (py_join sep ss))
      | _ \<Rightarrow> None)"

text \<open>
  \<open>_join_strings_by\<close>: the lines printed, and the fused string or the exception. When
  the join raises \<open>TypeError\<close> the handler prints and falls to \<open>return fused_str\<close>, a
  name never bound: \<open>UnboundLocalError\<close>.
\<close>

definition join_strings_by :: "pyval \<Rightarrow> string option \<Rightarrow> string list \<times> (py_error + string)" where
  "join_strings_by strings use_str =
     (case use_str of
        None \<Rightarrow> ([], Inl TypeError)
      | Some sep \<Rightarrow>
          if strings = PyNone then ([], Inl TypeError)
          else (case str_join sep strings of
                  Some fused_str \<Rightarrow> ([], Inr fused_str)
                | None \<Rightarrow> ([''Unable to join strings using '' @ sep], Inl UnboundLocalError)))"

subsection \<open>Query-parameter assembly\<close>

text \<open>
  A parameter table is a \<open>dict\<close>: its items in insertion order (the keys of a \<open>dict\<close>
  are distinct).
\<close>

type_synonym params = "(string \<times> pyval) list"

text \<open>
  The body of the loop of \<open>_add_optional_params\<close> for a key \<open>k\<close> whose value \<open>v\<close> is not
  \<open>None\<close>: the lines printed, the value the table holds for \<open>k\<close> afterwards, and the
  parameter string appended to the URL, or the exception that leaves the loop.
\<close>

definition param_body :: "string \<Rightarrow> pyval \<Rightarrow> string list \<times> pyval \<times> (py_error + string)" where
  "param_body k v =
     (let v1 = (if k = ''&include_release_dates_with_no_data=''
                then PyStr (py_lower (py_str v)) else v)
      in if py_in ''tag_names'' k then
           (case join_strings_by v1 (Some '';'') of
              (out, Inr str_names) \<Rightarrow>
                (let v2 = PyStr (py_replace CHR '' '' ''+'' (py_strip str_names))
                 in (out, v2, Inr (k @ py_str v2)))
            | (out, Inl TypeError) \<Rightarrow>
                (out @ [''Cannot add tag_names to FRED query url''], v1, Inr (k @ py_str v1))
            | (out, Inl e) \<Rightarrow> (out, v1, Inl e))
         else ([], v1, Inr (k @ py_str v1)))"

text \<open>
  The loop over the keys: the lines printed, the table as the call leaves it (the
  caller's \<open>dict\<close> is assigned to in place, also when an exception ends the loop), and
  the URL or the exception.
\<close>

fun add_params_loop :: "string \<Rightarrow> params \<Rightarrow> string list \<times> params \<times> (py_error + string)" where
  "add_params_loop new_url_string [] = ([], [], Inr new_url_string)"
| "add_params_loop new_url_string ((k, v) # rest) =
     (if v \<noteq> PyNone then
        (case param_body k v of
           (out, v', Inl e) \<Rightarrow> (out, (k, v') # rest, Inl e)
         | (out, v', Inr a_parameter_string) \<Rightarrow>
             (case add_params_loop (new_url_string @ a_parameter_string) rest of
                (out', rest', r) \<Rightarrow> (out @ out', (k, v') # rest', r)))
      else
        (case add_params_loop new_url_string rest of
           (out', rest', r) \<Rightarrow> (out', (k, v) # rest', r)))"

definition add_optional_params ::
  "string \<Rightarrow> params \<Rightarrow> string list \<times> params \<times> (py_error + string)" where
  "add_optional_params og_url_string optional_params =
     add_params_loop og_url_string optional_params"

subsection \<open>Building the request URL\<close>

text \<open>
  \<open>_read_api_key_file\<close>: the lines printed, and the stripped first line, \<open>None\<close> when
  the file is not found (the handler prints the exception and the method ends), or
  the exception \<open>open\<close> raises otherwise.
\<close>

definition read_api_key_file ::
  "filesystem \<Rightarrow> fred_base \<Rightarrow> string list \<times> (py_error + string option)" where
  "read_api_key_file fs self =
     (case api_key_file self of
        None \<Rightarrow> ([], Inl TypeError)
      | Some p \<Rightarrow>
          (case fs p of
             None \<Rightarrow> ([''[Errno 2] No such file or directory: '' @ repr_str p], Inr None)
           | Some Directory \<Rightarrow> ([], Inl IsADirectoryError)
           | Some (RegularFile text) \<Rightarrow> ([], Inr (Some (py_strip (readline text))))))"

text \<open>
  \<open>_make_request_url\<close>: the lines printed, and the URL, \<open>None\<close> where the method ends
  without a \<open>return\<close>, or the exception. Adding \<open>None\<close> to a string raises \<open>TypeError\<close>.
\<close>

definition make_request_url ::
  "bool \<Rightarrow> environ \<Rightarrow> filesystem \<Rightarrow> fred_base \<Rightarrow> string
     \<Rightarrow> string list \<times> (py_error + string option)" where
  "make_request_url env_api_key_found env fs self var_url =
     (case viable_api_key env_api_key_found self of
        Inl e \<Rightarrow> ([], Inl e)
      | Inr key_to_use \<Rightarrow>
          (let base = concat [url_base, var_url, ''&file_type=json&api_key='']
           in if key_to_use = ''attribute'' then
                (case api_key self of
                   None \<Rightarrow> ([], Inl TypeError)
                 | Some key \<Rightarrow> ([], Inr (Some (base @ key))))
              else if key_to_use = ''env'' then
                (case env ''FRED_API_KEY'' of
                   Some key \<Rightarrow> ([], Inr (Some (base @ key)))
                 | None \<Rightarrow>
                     ([repr_str ''FRED_API_KEY'' @ ''  no longer found in environment''],
                      Inr None))
              else if key_to_use = ''file'' then
                (case read_api_key_file fs self of
                   (out, Inl e) \<Rightarrow> (out, Inl e)
                 | (out, Inr None) \<Rightarrow> (out, Inl TypeError)
                 | (out, Inr (Some key)) \<Rightarrow> (out, Inr (Some (base @ key))))
              else ([], Inr None)))"

subsection \<open>Fetching\<close>

text \<open>
  What \<open>requests.get\<close> followed by \<open>response.json()\<close> can do for a URL: the request
  raises \<open>RequestException\<close>, the body is not JSON, or the body decodes to a value
  (\<open>None\<close> for the JSON \<open>null\<close>).
\<close>

datatype 'j http_reply = RequestException | NotJSON | JSON "'j option"

text \<open>
  \<open>_get_response\<close>: only \<open>requests.get\<close> is inside the \<open>try\<close>; \<open>response.json()\<close> is
  after it. A URL that is \<open>None\<close> makes \<open>requests.get\<close> raise \<open>MissingSchema\<close>, a
  \<open>RequestException\<close>.
\<close>

definition get_response :: "(string \<Rightarrow> 'j http_reply) \<Rightarrow> string option \<Rightarrow> py_error + 'j option" where
  "get_response http a_url =
     (case a_url of
        None \<Rightarrow> Inr None
      | Some u \<Rightarrow>
          (case http u of
             RequestException \<Rightarrow> Inr None
           | NotJSON \<Rightarrow> Inl JSONDecodeError
           | JSON j \<Rightarrow> Inr j))"

text \<open>\<open>_fetch_data\<close>: the lines printed, and the decoded body, \<open>None\<close>, or the exception.\<close>

definition fetch_data ::
  "bool \<Rightarrow> environ \<Rightarrow> filesystem \<Rightarrow> (string \<Rightarrow> 'j http_reply) \<Rightarrow> fred_base \<Rightarrow> string
     \<Rightarrow> string list \<times> (py_error + 'j option)" where
  "fetch_data env_api_key_found env fs http self url_prefix =
     (case make_request_url env_api_key_found env fs self url_prefix of
        (out, Inl e) \<Rightarrow> (out, Inl e)
      | (out, Inr url) \<Rightarrow>
          (case get_response http url of
             Inl e \<Rightarrow> (out, Inl e)
           | Inr None \<Rightarrow> (out @ [''Data could not be retrieved, returning None''], Inr None)
           | Inr (Some json_data) \<Rightarrow> (out, Inr (Some json_data))))"

subsection \<open>Realtime dates\<close>

text \<open>
  \<open>_get_realtime_date\<close>. In each \<open>else\<close> branch the argument is turned into a string and
  bound to the argument's own name, which is not read again.
\<close>

definition get_realtime_date :: "pyval \<Rightarrow> pyval \<Rightarrow> string" where
  "get_realtime_date realtime_start realtime_end =
     (let rt_start = ''&realtime_start='';
          rt_end = ''&realtime_end='';
          (rt_start, realtime_start) =
             (if realtime_start = PyNone then (rt_start @ realtime_start_default, realtime_start)
              else (rt_start, PyStr (py_str realtime_start)));
          (rt_end, realtime_end) =
             (if realtime_end = PyNone then (rt_end @ realtime_end_default, realtime_end)
              else (rt_end, PyStr (py_str realtime_end)))
      in rt_start @ rt_end)"

section \<open>Credential resolution\<close>

text \<open>
  Claim C1. Lines 157 to 163 of \<open>_viable_api_key\<close>: an explicit key string wins, without
  it a key file path wins, and the answer is one name, never a combination. Without
  both, the answer is decided by the value of the call of \<open>env_api_key_found\<close>, the
  method whose body is not Python: the source does not determine that the environment
  variable is used.
\<close>

theorem viable_api_key_precedence:
  "viable_api_key env_api_key_found self =
     (if api_key self \<noteq> None then Inr ''attribute''
      else if api_key_file self \<noteq> None then Inr ''file''
      else if env_api_key_found then Inr ''env''
      else Inl AttributeError)"
  by (simp add: viable_api_key_def)

section \<open>The request URL\<close>

text \<open>
  Claim C4. Whenever a credential is resolved, the URL is the base URL, the path
  fragment, \<open>&file_type=json\<close> and \<open>&api_key=\<close> with the credential, in this order and
  with nothing after the credential. With the key string set the credential is the
  key string; without it and with the path of a regular file set, it is the stripped
  first line of the file. Every URL the method returns, whatever the call of
  \<open>env_api_key_found\<close> gave, has this shape, and its credential is the key string, or
  without one the stripped first line of the key file, or without both the value of
  \<open>FRED_API_KEY\<close> in the environment.
\<close>

theorem make_request_url_concat:
  "(api_key self = Some k \<longrightarrow>
      make_request_url env_api_key_found env fs self var_url =
        ([], Inr (Some (url_base @ var_url @ ''&file_type=json'' @ ''&api_key='' @ k))))
   \<and> (api_key self = None \<and> api_key_file self = Some p \<and> fs p = Some (RegularFile contents) \<longrightarrow>
      make_request_url env_api_key_found env fs self var_url =
        ([], Inr (Some (url_base @ var_url @ ''&file_type=json'' @ ''&api_key=''
                          @ py_strip (readline contents)))))
   \<and> (make_request_url env_api_key_found env fs self var_url = (out, Inr (Some url)) \<longrightarrow>
      out = [] \<and> (\<exists>credential.
         url = url_base @ var_url @ ''&file_type=json'' @ ''&api_key='' @ credential
         \<and> (api_key self = Some credential
            \<or> (api_key self = None \<and> (\<exists>q txt. api_key_file self = Some q
                  \<and> fs q = Some (RegularFile txt) \<and> credential = py_strip (readline txt)))
            \<or> (api_key self = None \<and> api_key_file self = None
                  \<and> env ''FRED_API_KEY'' = Some credential))))"
proof -
  have 1: "api_key self = Some k \<longrightarrow>
      make_request_url env_api_key_found env fs self var_url =
        ([], Inr (Some (url_base @ var_url @ ''&file_type=json'' @ ''&api_key='' @ k)))"
    by (simp add: make_request_url_def viable_api_key_def)
  have 2: "api_key self = None \<and> api_key_file self = Some p
        \<and> fs p = Some (RegularFile contents) \<longrightarrow>
      make_request_url env_api_key_found env fs self var_url =
        ([], Inr (Some (url_base @ var_url @ ''&file_type=json'' @ ''&api_key=''
                          @ py_strip (readline contents))))"
    by (simp add: make_request_url_def viable_api_key_def read_api_key_file_def)
  have 3: "make_request_url env_api_key_found env fs self var_url = (out, Inr (Some url)) \<longrightarrow>
      out = [] \<and> (\<exists>credential.
         url = url_base @ var_url @ ''&file_type=json'' @ ''&api_key='' @ credential
         \<and> (api_key self = Some credential
            \<or> (api_key self = None \<and> (\<exists>q txt. api_key_file self = Some q
                  \<and> fs q = Some (RegularFile txt) \<and> credential = py_strip (readline txt)))
            \<or> (api_key self = None \<and> api_key_file self = None
                  \<and> env ''FRED_API_KEY'' = Some credential)))"
    by (auto simp: make_request_url_def viable_api_key_def read_api_key_file_def
          split: option.splits fs_entry.splits if_splits)
  from 1 2 3 show ?thesis by (intro conjI)
qed

theorem make_request_url_concat_witness:
  "make_request_url False Map.empty Map.empty
      \<lparr>api_key = Some ''abcd1234'', api_key_file = None, api_key_env_var = False\<rparr> ''releases?''
     = ([], Inr (Some ''https://api.stlouisfed.org/fred/releases?&file_type=json&api_key=abcd1234''))
   \<and> make_request_url False Map.empty (Map.empty(''key.txt'' \<mapsto> RegularFile '' abcd1234 ''))
      \<lparr>api_key = None, api_key_file = Some ''key.txt'', api_key_env_var = False\<rparr> ''releases?''
     = ([], Inr (Some ''https://api.stlouisfed.org/fred/releases?&file_type=json&api_key=abcd1234''))"
proof -
  let ?keyed = "\<lparr>api_key = Some ''abcd1234'', api_key_file = None, api_key_env_var = False\<rparr>"
  let ?filed = "\<lparr>api_key = None, api_key_file = Some ''key.txt'', api_key_env_var = False\<rparr>"
  let ?fs = "Map.empty(''key.txt'' \<mapsto> RegularFile '' abcd1234 '')"
  have 1: "make_request_url False Map.empty Map.empty ?keyed ''releases?'' =
      ([], Inr (Some (url_base @ ''releases?'' @ ''&file_type=json'' @ ''&api_key='' @ ''abcd1234'')))"
    using make_request_url_concat [where self = ?keyed and k = "''abcd1234''"
        and env = Map.empty and fs = Map.empty and var_url = "''releases?''"
        and env_api_key_found = False, THEN conjunct1]
    by simp
  have 2: "make_request_url False Map.empty ?fs ?filed ''releases?'' =
      ([], Inr (Some (url_base @ ''releases?'' @ ''&file_type=json'' @ ''&api_key=''
                        @ py_strip (readline '' abcd1234 ''))))"
    using make_request_url_concat [where self = ?filed and env = Map.empty and fs = ?fs
        and var_url = "''releases?''" and p = "''key.txt''" and contents = "'' abcd1234 ''"
        and env_api_key_found = False, THEN conjunct2, THEN conjunct1]
    by simp
  have 3: "py_strip (readline '' abcd1234 '') = ''abcd1234''"
    by (simp add: py_strip_def py_isspace_def)
  from 1 2 show ?thesis
    by (simp only: 3) (simp add: url_base_def)
qed

section \<open>Fetching\<close>

lemma make_request_url_quiet:
  "make_request_url env_api_key_found env fs self var_url = (out, Inr (Some url)) \<Longrightarrow> out = []"
  by (auto simp: make_request_url_def viable_api_key_def read_api_key_file_def
        split: option.splits fs_entry.splits if_splits)

text \<open>
  Claim C7, as amended. When the URL is built and \<open>requests.get\<close> raises
  \<open>RequestException\<close>, \<open>_fetch_data\<close> raises nothing and returns \<open>None\<close>, and what it
  prints is one fixed line, the same for every credential and every URL.
\<close>

theorem fetch_data_network_failure:
  assumes "snd (make_request_url env_api_key_found env fs self url_prefix) = Inr (Some url)"
    and "http url = RequestException"
  shows "fetch_data env_api_key_found env fs http self url_prefix =
     ([''Data could not be retrieved, returning None''], Inr None)"
proof -
  obtain out where
    "make_request_url env_api_key_found env fs self url_prefix = (out, Inr (Some url))"
    using assms(1)
    by (cases "make_request_url env_api_key_found env fs self url_prefix") auto
  moreover from this have "out = []"
    by (rule make_request_url_quiet)
  ultimately show ?thesis
    using assms(2) by (simp add: fetch_data_def get_response_def)
qed

theorem fetch_data_network_failure_witness:
  "fetch_data False Map.empty Map.empty (\<lambda>u. RequestException :: unit http_reply)
      \<lparr>api_key = Some ''abcd1234'', api_key_file = None, api_key_env_var = False\<rparr>
      ''series?series_id=GDP''
     = ([''Data could not be retrieved, returning None''], Inr None)"
proof -
  have "snd (make_request_url False Map.empty Map.empty
      \<lparr>api_key = Some ''abcd1234'', api_key_file = None, api_key_env_var = False\<rparr>
      ''series?series_id=GDP'')
     = Inr (Some (url_base @ ''series?series_id=GDP&file_type=json&api_key=abcd1234''))"
    by (simp add: make_request_url_def viable_api_key_def)
  then show ?thesis
    by (rule fetch_data_network_failure) simp
qed

text \<open>
  Claim C7 as stated fails for a body that is not JSON: \<open>response.json()\<close> is outside
  the \<open>try\<close> of \<open>_get_response\<close>, so its exception reaches the caller of \<open>_fetch_data\<close>.
  The instance holds an explicit key string, so \<open>env_api_key_found\<close> is not called.
\<close>

theorem undecodable_body_counterexample:
  "fetch_data False Map.empty Map.empty (\<lambda>u. NotJSON :: unit http_reply)
      \<lparr>api_key = Some ''abcd1234'', api_key_file = None, api_key_env_var = False\<rparr>
      ''series?series_id=GDP''
     = ([], Inl JSONDecodeError)"
  by (simp add: fetch_data_def make_request_url_def viable_api_key_def get_response_def)

section \<open>The credential file\<close>

lemma py_strip_snoc_space: "py_isspace w \<Longrightarrow> py_strip (s @ [w]) = py_strip s"
  by (cases "\<forall>c\<in>set s. py_isspace c")
    (auto simp: py_strip_def dropWhile_append dest: set_dropWhileD)

lemma py_strip_split:
  "dropWhile py_isspace s =
     py_strip s @ rev (takeWhile py_isspace (rev (dropWhile py_isspace s)))"
proof -
  let ?t = "dropWhile py_isspace s"
  have "?t = rev (rev ?t)" by simp
  also have "\<dots> = rev (takeWhile py_isspace (rev ?t) @ dropWhile py_isspace (rev ?t))"
    by (simp only: takeWhile_dropWhile_id)
  also have "\<dots> = py_strip s @ rev (takeWhile py_isspace (rev ?t))"
    by (simp only: rev_append py_strip_def)
  finally show ?thesis .
qed

lemma py_strip_decomp:
  "\<exists>a b. s = a @ py_strip s @ b \<and> (\<forall>c\<in>set a. py_isspace c) \<and> (\<forall>c\<in>set b. py_isspace c)"
proof -
  let ?t = "dropWhile py_isspace s"
  let ?b = "rev (takeWhile py_isspace (rev ?t))"
  have "s = takeWhile py_isspace s @ ?t" by simp
  then have "s = takeWhile py_isspace s @ py_strip s @ ?b"
    using py_strip_split [of s] by simp
  moreover have "\<forall>c\<in>set (takeWhile py_isspace s). py_isspace c"
    by (auto dest: set_takeWhileD)
  moreover have "\<forall>c\<in>set ?b. py_isspace c"
    by (auto dest: set_takeWhileD)
  ultimately show ?thesis by blast
qed

lemma py_strip_ends:
  assumes "py_strip s \<noteq> []"
  shows "\<not> py_isspace (hd (py_strip s)) \<and> \<not> py_isspace (last (py_strip s))"
proof -
  let ?t = "dropWhile py_isspace s"
  let ?d = "dropWhile py_isspace (rev ?t)"
  have d: "?d \<noteq> []" using assms by (simp add: py_strip_def)
  then have "\<not> py_isspace (hd ?d)" by (rule hd_dropWhile)
  moreover have "last (py_strip s) = hd ?d"
    using d by (simp add: py_strip_def last_rev)
  ultimately have l: "\<not> py_isspace (last (py_strip s))" by simp
  have "?t \<noteq> []" using d by (auto dest: set_dropWhileD)
  then have h: "\<not> py_isspace (hd ?t)" by (rule hd_dropWhile)
  have "hd ?t = hd (py_strip s @ rev (takeWhile py_isspace (rev ?t)))"
    using py_strip_split [of s] by simp
  then have "hd ?t = hd (py_strip s)" using assms by simp
  with h l show ?thesis by simp
qed

lemma readline_takeWhile:
  "readline s = takeWhile (\<lambda>c. c \<noteq> CHR 0x0A \<and> c \<noteq> CHR 0x0D) s \<or>
   readline s = takeWhile (\<lambda>c. c \<noteq> CHR 0x0A \<and> c \<noteq> CHR 0x0D) s @ [CHR 0x0A]"
  by (induction s) auto

lemma py_strip_readline:
  "py_strip (readline s) = py_strip (takeWhile (\<lambda>c. c \<noteq> CHR 0x0A \<and> c \<noteq> CHR 0x0D) s)"
proof -
  have "py_isspace (CHR 0x0A)" by (simp add: py_isspace_def)
  then show ?thesis
    using readline_takeWhile [of s] py_strip_snoc_space [of "CHR 0x0A"] by auto
qed

text \<open>
  Claim C8. Reading the key file returns the first line of the file (the text before
  the first line break) without the whitespace around it: the line is \<open>a @ key @ b\<close>
  with \<open>a\<close> and \<open>b\<close> whitespace and \<open>key\<close> neither starting nor ending with whitespace.
  Setting a path that is not a file raises \<open>FileNotFoundError\<close> (the specification's
  \<open>CredentialFileNotFoundError\<close>), also from \<open>__init__\<close>; setting a path that is a file
  stores it. A file missing when it is read raises nothing: the read returns \<open>None\<close>.
\<close>

theorem credential_file_set_and_read:
  "(api_key_file self = Some p \<and> fs p = Some (RegularFile contents) \<longrightarrow>
      (\<exists>key a b. read_api_key_file fs self = ([], Inr (Some key))
         \<and> takeWhile (\<lambda>c. c \<noteq> CHR 0x0A \<and> c \<noteq> CHR 0x0D) contents = a @ key @ b
         \<and> (\<forall>c\<in>set a. py_isspace c) \<and> (\<forall>c\<in>set b. py_isspace c)
         \<and> (key \<noteq> [] \<longrightarrow> \<not> py_isspace (hd key) \<and> \<not> py_isspace (last key))))
   \<and> (\<not> isfile fs p \<longrightarrow>
        set_api_key_file fs self (Some p) = Inl FileNotFoundError
        \<and> init env_api_key_found fs None (Some p) = Inl FileNotFoundError)
   \<and> (isfile fs p \<longrightarrow>
        set_api_key_file fs self (Some p) = Inr (self\<lparr>api_key_file := Some p\<rparr>, True))
   \<and> (api_key_file self = Some p \<and> fs p = None \<longrightarrow>
        snd (read_api_key_file fs self) = Inr None)"
proof -
  let ?fl = "takeWhile (\<lambda>c. c \<noteq> CHR 0x0A \<and> c \<noteq> CHR 0x0D) contents"
  obtain a b where ab: "?fl = a @ py_strip ?fl @ b" "\<forall>c\<in>set a. py_isspace c"
      "\<forall>c\<in>set b. py_isspace c"
    using py_strip_decomp [of ?fl] by blast
  have 1: "api_key_file self = Some p \<and> fs p = Some (RegularFile contents) \<longrightarrow>
      (\<exists>key a b. read_api_key_file fs self = ([], Inr (Some key))
         \<and> ?fl = a @ key @ b
         \<and> (\<forall>c\<in>set a. py_isspace c) \<and> (\<forall>c\<in>set b. py_isspace c)
         \<and> (key \<noteq> [] \<longrightarrow> \<not> py_isspace (hd key) \<and> \<not> py_isspace (last key)))"
  proof
    assume h: "api_key_file self = Some p \<and> fs p = Some (RegularFile contents)"
    then have "read_api_key_file fs self = ([], Inr (Some (py_strip ?fl)))"
      by (simp add: read_api_key_file_def py_strip_readline)
    with ab py_strip_ends [of ?fl] show "\<exists>key a b. read_api_key_file fs self = ([], Inr (Some key))
         \<and> ?fl = a @ key @ b
         \<and> (\<forall>c\<in>set a. py_isspace c) \<and> (\<forall>c\<in>set b. py_isspace c)
         \<and> (key \<noteq> [] \<longrightarrow> \<not> py_isspace (hd key) \<and> \<not> py_isspace (last key))"
      by blast
  qed
  have 2: "\<not> isfile fs p \<longrightarrow>
        set_api_key_file fs self (Some p) = Inl FileNotFoundError
        \<and> init env_api_key_found fs None (Some p) = Inl FileNotFoundError"
    by (simp add: set_api_key_file_def init_def)
  have 3: "isfile fs p \<longrightarrow>
        set_api_key_file fs self (Some p) = Inr (self\<lparr>api_key_file := Some p\<rparr>, True)"
    by (simp add: set_api_key_file_def)
  have 4: "api_key_file self = Some p \<and> fs p = None \<longrightarrow>
        snd (read_api_key_file fs self) = Inr None"
    by (simp add: read_api_key_file_def)
  from 1 2 3 4 show ?thesis by (intro conjI)
qed

theorem credential_file_set_and_read_witness:
  "read_api_key_file (Map.empty(''key.txt'' \<mapsto> RegularFile (''  abcd 1234 '' @ [CHR 0x0D, CHR 0x0A] @ ''second'')))
      \<lparr>api_key = None, api_key_file = Some ''key.txt'', api_key_env_var = False\<rparr>
     = ([], Inr (Some ''abcd 1234''))
   \<and> set_api_key_file Map.empty \<lparr>api_key = None, api_key_file = None, api_key_env_var = False\<rparr>
        (Some ''key.txt'') = Inl FileNotFoundError
   \<and> snd (read_api_key_file Map.empty
        \<lparr>api_key = None, api_key_file = Some ''key.txt'', api_key_env_var = False\<rparr>) = Inr None"
proof -
  let ?contents = "''  abcd 1234 '' @ [CHR 0x0D, CHR 0x0A] @ ''second''"
  let ?fs = "Map.empty(''key.txt'' \<mapsto> RegularFile ?contents)"
  let ?self = "\<lparr>api_key = None, api_key_file = Some ''key.txt'', api_key_env_var = False\<rparr>"
  let ?fresh = "\<lparr>api_key = None, api_key_file = None, api_key_env_var = False\<rparr>"
  have "\<exists>key a b. read_api_key_file ?fs ?self = ([], Inr (Some key))
         \<and> takeWhile (\<lambda>c. c \<noteq> CHR 0x0A \<and> c \<noteq> CHR 0x0D) ?contents = a @ key @ b
         \<and> (\<forall>c\<in>set a. py_isspace c) \<and> (\<forall>c\<in>set b. py_isspace c)
         \<and> (key \<noteq> [] \<longrightarrow> \<not> py_isspace (hd key) \<and> \<not> py_isspace (last key))"
    using credential_file_set_and_read [where self = ?self and p = "''key.txt''" and fs = ?fs and contents = ?contents] by simp
  then obtain key where "read_api_key_file ?fs ?self = ([], Inr (Some key))" by blast
  moreover have "read_api_key_file ?fs ?self = ([], Inr (Some ''abcd 1234''))"
    by (simp add: read_api_key_file_def py_strip_def py_isspace_def)
  moreover have "set_api_key_file Map.empty ?fresh (Some ''key.txt'') = Inl FileNotFoundError"
    using credential_file_set_and_read [where self = ?fresh and p = "''key.txt''" and fs = Map.empty]
    by (simp add: isfile_def)
  moreover have "snd (read_api_key_file Map.empty ?self) = Inr None"
    using credential_file_set_and_read [where self = ?self and p = "''key.txt''" and fs = Map.empty] by simp
  ultimately show ?thesis by simp
qed

section \<open>Query-parameter assembly\<close>

lemma inc_no_tag_names: "\<not> py_in ''tag_names'' ''&include_release_dates_with_no_data=''"
  by simp

lemma add_params_loop_append:
  "add_params_loop url (ps @ qs) =
     (case add_params_loop url ps of
        (out, ps', Inl e) \<Rightarrow> (out, ps' @ qs, Inl e)
      | (out, ps', Inr u) \<Rightarrow>
          (case add_params_loop u qs of (out', qs', r) \<Rightarrow> (out @ out', ps' @ qs', r)))"
proof (induction ps arbitrary: url)
  case Nil
  show ?case by (simp split: prod.splits)
next
  case (Cons p ps)
  obtain k v where p: "p = (k, v)" by (cases p)
  show ?case
    unfolding p by (simp add: Cons.IH split: prod.splits sum.splits)
qed

lemma add_params_loop_keys:
  "add_params_loop url ps = (out, ps', r) \<Longrightarrow> map fst ps' = map fst ps"
proof (induction ps arbitrary: url out ps' r)
  case Nil
  then show ?case by simp
next
  case (Cons p ps)
  obtain k v where p: "p = (k, v)" by (cases p)
  from Cons.prems show ?case
    unfolding p by (auto split: prod.splits sum.splits if_splits dest: Cons.IH)
qed

lemma add_params_loop_length: "length (fst (snd (add_params_loop url ps))) = length ps"
proof -
  obtain out ps' r where "add_params_loop url ps = (out, ps', r)"
    by (cases "add_params_loop url ps")
  then show ?thesis
    using add_params_loop_keys [of url ps out ps' r] map_eq_imp_length_eq [of fst ps' fst ps]
    by simp
qed

lemma add_params_loop_filter:
  "snd (snd (add_params_loop url (filter (\<lambda>p. snd p \<noteq> PyNone) ps))) =
   snd (snd (add_params_loop url ps))"
proof (induction ps arbitrary: url)
  case Nil
  show ?case by simp
next
  case (Cons p ps)
  obtain k v where p: "p = (k, v)" by (cases p)
  show ?case
  proof (cases "v = PyNone")
    case True
    then show ?thesis
      unfolding p using Cons.IH [of url] by (simp split: prod.splits)
  next
    case False
    obtain out v' r where b: "param_body k v = (out, v', r)" by (cases "param_body k v")
    show ?thesis
    proof (cases r)
      case (Inl e)
      with False b show ?thesis unfolding p by simp
    next
      case (Inr s)
      with False b show ?thesis
        unfolding p using Cons.IH [of "url @ s"] by (auto split: prod.splits)
    qed
  qed
qed

text \<open>One more parameter after a prefix of the table that raised nothing.\<close>

lemma add_params_loop_next_url:
  assumes "snd (snd (add_params_loop url ps)) = Inr u" and "v \<noteq> PyNone"
    and "param_body k v = (out, v', Inr s)"
  shows "snd (snd (add_params_loop url (ps @ (k, v) # qs))) =
         snd (snd (add_params_loop (u @ s) qs))"
  using assms by (auto simp: add_params_loop_append split: prod.splits sum.splits)

lemma add_params_loop_next_entry:
  assumes "snd (snd (add_params_loop url ps)) = Inr u" and "v \<noteq> PyNone"
    and "param_body k v = (out, v', r)"
  shows "fst (snd (add_params_loop url (ps @ (k, v) # qs))) ! length ps = (k, v')"
proof -
  obtain o1 ps' where 1: "add_params_loop url ps = (o1, ps', Inr u)"
    using assms(1) by (cases "add_params_loop url ps") auto
  then have "length ps' = length ps"
    using add_params_loop_length [of url ps] by simp
  moreover have "\<exists>o2 qs'. fst (snd (add_params_loop u ((k, v) # qs))) = (k, v') # qs'"
    using assms(2,3) by (cases r) (auto split: prod.splits)
  ultimately show ?thesis
    using 1 by (auto simp: add_params_loop_append nth_append split: prod.splits)
qed

lemma lower_True: "py_lower ''True'' = ''true''"
  by code_simp

lemma lower_False: "py_lower ''False'' = ''false''"
  by code_simp

lemma param_body_bool_inc:
  "param_body ''&include_release_dates_with_no_data='' v =
     ([], PyStr (py_lower (py_str v)),
      Inr (''&include_release_dates_with_no_data='' @ py_lower (py_str v)))"
  by (simp add: param_body_def py_str_def)

lemma param_body_plain:
  "k \<noteq> ''&include_release_dates_with_no_data='' \<Longrightarrow> \<not> py_in ''tag_names'' k \<Longrightarrow>
   param_body k v = ([], v, Inr (k @ py_str v))"
  by (simp add: param_body_def)

lemma py_replace_map:
  "py_replace old [new] s = map (\<lambda>c. if c = old then new else c) s"
  by (induction s) (auto simp: py_replace_def)

lemma param_body_tag_names:
  assumes "py_in ''tag_names'' k" and "str_items vs = Some ss"
  shows "param_body k (PyList vs) =
     ([], PyStr (map (\<lambda>c. if c = CHR '' '' then CHR ''+'' else c) (py_strip (py_join '';'' ss))),
      Inr (k @ map (\<lambda>c. if c = CHR '' '' then CHR ''+'' else c) (py_strip (py_join '';'' ss))))"
proof -
  have "k \<noteq> ''&include_release_dates_with_no_data=''"
    using assms(1) inc_no_tag_names by auto
  then show ?thesis
    using assms
    by (simp add: param_body_def join_strings_by_def str_join_def py_str_def py_replace_map)
qed

text \<open>
  Claim C5, as amended. A parameter whose value is \<open>None\<close> contributes nothing: the
  URL built from a table is the URL built from the table without its \<open>None\<close> entries,
  for every parameter name. A boolean is rendered in lower case, \<open>true\<close> or \<open>false\<close>,
  under the name \<open>&include_release_dates_with_no_data=\<close>, the one name the loop
  compares with; under any other name that does not contain \<open>tag_names\<close> it is
  rendered as \<open>str\<close> gives it, \<open>True\<close> or \<open>False\<close>.
\<close>

theorem add_optional_params_none_and_bool:
  "snd (snd (add_optional_params url (filter (\<lambda>p. snd p \<noteq> PyNone) ps))) =
     snd (snd (add_optional_params url ps))
   \<and> (snd (snd (add_optional_params url ps)) = Inr u \<longrightarrow>
        snd (snd (add_optional_params url
                    (ps @ (''&include_release_dates_with_no_data='', PyBool b) # qs))) =
        snd (snd (add_optional_params
                    (u @ ''&include_release_dates_with_no_data=''
                       @ (if b then ''true'' else ''false'')) qs)))
   \<and> (snd (snd (add_optional_params url ps)) = Inr u
        \<and> k \<noteq> ''&include_release_dates_with_no_data='' \<and> \<not> py_in ''tag_names'' k \<longrightarrow>
        snd (snd (add_optional_params url (ps @ (k, PyBool b) # qs))) =
        snd (snd (add_optional_params (u @ k @ (if b then ''True'' else ''False'')) qs)))"
proof -
  let ?inc = "''&include_release_dates_with_no_data=''"
  have low: "py_lower (py_str (PyBool b)) = (if b then ''true'' else ''false'')"
    by (simp add: py_str_def lower_True lower_False)
  have 1: "snd (snd (add_params_loop url (filter (\<lambda>p. snd p \<noteq> PyNone) ps))) =
     snd (snd (add_params_loop url ps))"
    by (rule add_params_loop_filter)
  have 2: "snd (snd (add_params_loop url ps)) = Inr u \<longrightarrow>
        snd (snd (add_params_loop url (ps @ (?inc, PyBool b) # qs))) =
        snd (snd (add_params_loop (u @ ?inc @ (if b then ''true'' else ''false'')) qs))"
  proof
    assume "snd (snd (add_params_loop url ps)) = Inr u"
    then have "snd (snd (add_params_loop url (ps @ (?inc, PyBool b) # qs))) =
        snd (snd (add_params_loop (u @ ?inc @ py_lower (py_str (PyBool b))) qs))"
      by (rule add_params_loop_next_url) (simp_all add: param_body_bool_inc)
    then show "snd (snd (add_params_loop url (ps @ (?inc, PyBool b) # qs))) =
        snd (snd (add_params_loop (u @ ?inc @ (if b then ''true'' else ''false'')) qs))"
      by (simp only: low)
  qed
  have 3: "snd (snd (add_params_loop url ps)) = Inr u
        \<and> k \<noteq> ?inc \<and> \<not> py_in ''tag_names'' k \<longrightarrow>
        snd (snd (add_params_loop url (ps @ (k, PyBool b) # qs))) =
        snd (snd (add_params_loop (u @ k @ (if b then ''True'' else ''False'')) qs))"
  proof
    assume h: "snd (snd (add_params_loop url ps)) = Inr u
        \<and> k \<noteq> ?inc \<and> \<not> py_in ''tag_names'' k"
    then have "param_body k (PyBool b) = ([], PyBool b, Inr (k @ py_str (PyBool b)))"
      by (simp add: param_body_plain)
    with h have "snd (snd (add_params_loop url (ps @ (k, PyBool b) # qs))) =
        snd (snd (add_params_loop (u @ k @ py_str (PyBool b)) qs))"
      using add_params_loop_next_url [of url ps u "PyBool b" k "[]" "PyBool b" "k @ py_str (PyBool b)" qs]
      by simp
    then show "snd (snd (add_params_loop url (ps @ (k, PyBool b) # qs))) =
        snd (snd (add_params_loop (u @ k @ (if b then ''True'' else ''False'')) qs))"
      by (simp add: py_str_def)
  qed
  from 1 2 3 show ?thesis
    unfolding add_optional_params_def by (intro conjI)
qed

theorem add_optional_params_none_and_bool_witness:
  "snd (snd (add_optional_params ''releases/dates?''
       [(''&limit='', PyNone), (''&include_release_dates_with_no_data='', PyBool True),
        (''&offset='', PyNone)])) =
     Inr ''releases/dates?&include_release_dates_with_no_data=true''
   \<and> snd (snd (add_optional_params ''releases/dates?''
       [(''&limit='', PyNone), (''&flag='', PyBool True)])) = Inr ''releases/dates?&flag=True''"
proof -
  let ?inc = "''&include_release_dates_with_no_data=''"
  have 0: "snd (snd (add_optional_params ''releases/dates?'' [])) = Inr ''releases/dates?''"
    by (simp add: add_optional_params_def)
  have "snd (snd (add_optional_params ''releases/dates?''
       [(''&limit='', PyNone), (?inc, PyBool True), (''&offset='', PyNone)])) =
     snd (snd (add_optional_params ''releases/dates?'' ([] @ (?inc, PyBool True) # [])))"
    using add_optional_params_none_and_bool [where url = "''releases/dates?''"
        and ps = "[(''&limit='', PyNone), (?inc, PyBool True), (''&offset='', PyNone)]"]
    by simp
  also have "\<dots> = snd (snd (add_optional_params (''releases/dates?'' @ ?inc @ ''true'') []))"
    using 0 add_optional_params_none_and_bool [where url = "''releases/dates?''" and ps = "[]"
        and u = "''releases/dates?''" and b = True and qs = "[]"]
    by simp
  finally have a: "snd (snd (add_optional_params ''releases/dates?''
       [(''&limit='', PyNone), (?inc, PyBool True), (''&offset='', PyNone)])) =
     Inr ''releases/dates?&include_release_dates_with_no_data=true''"
    by (simp add: add_optional_params_def)
  have "snd (snd (add_optional_params ''releases/dates?''
       [(''&limit='', PyNone), (''&flag='', PyBool True)])) =
     snd (snd (add_optional_params ''releases/dates?'' ([] @ (''&flag='', PyBool True) # [])))"
    using add_optional_params_none_and_bool [where url = "''releases/dates?''"
        and ps = "[(''&limit='', PyNone), (''&flag='', PyBool True)]"]
    by simp
  also have "\<dots> = snd (snd (add_optional_params (''releases/dates?'' @ ''&flag='' @ ''True'') []))"
    using 0 add_optional_params_none_and_bool [where url = "''releases/dates?''" and ps = "[]"
        and u = "''releases/dates?''" and b = True and qs = "[]" and k = "''&flag=''"]
    by simp
  finally have b: "snd (snd (add_optional_params ''releases/dates?''
       [(''&limit='', PyNone), (''&flag='', PyBool True)])) = Inr ''releases/dates?&flag=True''"
    by (simp add: add_optional_params_def)
  from a b show ?thesis by (intro conjI)
qed

text \<open>
  Claim C5 as stated fails for a boolean under another name: \<open>True\<close> under \<open>&limit=\<close>
  appears in the URL as \<open>True\<close>.
\<close>

theorem bool_param_counterexample:
  "add_optional_params ''series/search?search_text=gdp'' [(''&limit='', PyBool True)] =
     ([], [(''&limit='', PyBool True)], Inr ''series/search?search_text=gdp&limit=True'')"
  by (simp add: add_optional_params_def param_body_def py_str_def)

text \<open>
  Tag names whose only whitespace is the space character are encoded as the docstring
  of the method says: for a name that contains \<open>tag_names\<close> and a list of strings, the
  strings are joined with \<open>;\<close>, whitespace is stripped from both ends of the joined
  string, and every space character in it is replaced with \<open>+\<close>. The list
  \<open>["inflation", "usa trade"]\<close> appears as \<open>inflation;usa+trade\<close>.
\<close>

lemma tag_names_joined:
  assumes "py_in ''tag_names'' k" and "str_items vs = Some ss"
    and "snd (snd (add_optional_params url ps)) = Inr u"
  shows "snd (snd (add_optional_params url (ps @ (k, PyList vs) # qs))) =
         snd (snd (add_optional_params
            (u @ k @ map (\<lambda>c. if c = CHR '' '' then CHR ''+'' else c) (py_strip (py_join '';'' ss)))
            qs))"
  unfolding add_optional_params_def
  using assms(3) unfolding add_optional_params_def
  by (rule add_params_loop_next_url) (simp_all add: param_body_tag_names [OF assms(1,2)])

lemma tag_names_joined_example:
  "snd (snd (add_optional_params ''series/search?search_text=gdp''
      [(''&tag_names='', PyList [PyStr ''inflation'', PyStr ''usa trade''])])) =
     Inr ''series/search?search_text=gdp&tag_names=inflation;usa+trade''"
proof -
  have "py_in ''tag_names'' ''&tag_names=''" by simp
  moreover have "str_items [PyStr ''inflation'', PyStr ''usa trade''] = Some [''inflation'', ''usa trade'']"
    by simp
  moreover have "snd (snd (add_optional_params ''series/search?search_text=gdp'' [])) =
      Inr ''series/search?search_text=gdp''"
    by (simp add: add_optional_params_def)
  ultimately have "snd (snd (add_optional_params ''series/search?search_text=gdp''
      ([] @ (''&tag_names='', PyList [PyStr ''inflation'', PyStr ''usa trade'']) # []))) =
     snd (snd (add_optional_params
        (''series/search?search_text=gdp'' @ ''&tag_names=''
           @ map (\<lambda>c. if c = CHR '' '' then CHR ''+'' else c)
               (py_strip (py_join '';'' [''inflation'', ''usa trade''])))
        []))"
    by (rule tag_names_joined)
  then show ?thesis
    by (simp add: add_optional_params_def py_strip_def py_isspace_def)
qed

text \<open>
  Claim C6. The docstring of \<open>_add_optional_params\<close> says that for a name containing
  \<open>tag_names\<close> whitespace is replaced with \<open>+\<close>, as the claim does. The code replaces
  the space character only: for a list of the tag names \<open>inflation\<close> and \<open>usa trade\<close>
  written with a tab in place of the space, the tab is not replaced and stays in the
  URL and in the table.
\<close>

theorem tag_names_tab_kept:
  "add_optional_params ''series/search?search_text=gdp''
      [(''&tag_names='', PyList [PyStr ''inflation'', PyStr (''usa'' @ [CHR 0x09] @ ''trade'')])] =
     ([], [(''&tag_names='', PyStr (''inflation;usa'' @ [CHR 0x09] @ ''trade''))],
      Inr (''series/search?search_text=gdp&tag_names=inflation;usa'' @ [CHR 0x09] @ ''trade''))"
  by (simp add: add_optional_params_def param_body_def join_strings_by_def str_join_def
      py_str_def py_replace_def py_strip_def py_isspace_def)

text \<open>
  Claim C9. The call assigns to the caller's table. After a prefix of the table that
  raised nothing, the entry named \<open>&include_release_dates_with_no_data=\<close> with a value
  other than \<open>None\<close> holds the lower-cased string of the value, and an entry whose name
  contains \<open>tag_names\<close> with a list of strings holds the joined and replaced string. The
  table the call leaves differs from the table passed in: always for a list of tag
  names, and for the first name whenever the value was not already that string.
\<close>

theorem add_optional_params_mutates:
  assumes "snd (snd (add_optional_params url ps)) = Inr u"
  shows "(v \<noteq> PyNone \<longrightarrow>
           fst (snd (add_optional_params url
              (ps @ (''&include_release_dates_with_no_data='', v) # qs))) ! length ps =
           (''&include_release_dates_with_no_data='', PyStr (py_lower (py_str v))))
       \<and> (v \<noteq> PyNone \<and> v \<noteq> PyStr (py_lower (py_str v)) \<longrightarrow>
           fst (snd (add_optional_params url
              (ps @ (''&include_release_dates_with_no_data='', v) # qs))) \<noteq>
           ps @ (''&include_release_dates_with_no_data='', v) # qs)
       \<and> (py_in ''tag_names'' k \<and> str_items vs = Some ss \<longrightarrow>
           fst (snd (add_optional_params url (ps @ (k, PyList vs) # qs))) ! length ps =
           (k, PyStr (map (\<lambda>c. if c = CHR '' '' then CHR ''+'' else c)
                        (py_strip (py_join '';'' ss))))
           \<and> fst (snd (add_optional_params url (ps @ (k, PyList vs) # qs))) \<noteq>
             ps @ (k, PyList vs) # qs)"
proof -
  let ?inc = "''&include_release_dates_with_no_data=''"
  let ?t = "map (\<lambda>c. if c = CHR '' '' then CHR ''+'' else c) (py_strip (py_join '';'' ss))"
  have u: "snd (snd (add_params_loop url ps)) = Inr u"
    using assms by (simp add: add_optional_params_def)
  have 1: "v \<noteq> PyNone \<longrightarrow>
      fst (snd (add_params_loop url (ps @ (?inc, v) # qs))) ! length ps =
      (?inc, PyStr (py_lower (py_str v)))"
    using add_params_loop_next_entry [OF u _ param_body_bool_inc] by blast
  have 2: "v \<noteq> PyNone \<and> v \<noteq> PyStr (py_lower (py_str v)) \<longrightarrow>
      fst (snd (add_params_loop url (ps @ (?inc, v) # qs))) \<noteq> ps @ (?inc, v) # qs"
  proof
    assume h: "v \<noteq> PyNone \<and> v \<noteq> PyStr (py_lower (py_str v))"
    show "fst (snd (add_params_loop url (ps @ (?inc, v) # qs))) \<noteq> ps @ (?inc, v) # qs"
    proof
      assume "fst (snd (add_params_loop url (ps @ (?inc, v) # qs))) = ps @ (?inc, v) # qs"
      then have "fst (snd (add_params_loop url (ps @ (?inc, v) # qs))) ! length ps = (?inc, v)"
        by simp
      with 1 h show False by simp
    qed
  qed
  have 3: "py_in ''tag_names'' k \<and> str_items vs = Some ss \<longrightarrow>
      fst (snd (add_params_loop url (ps @ (k, PyList vs) # qs))) ! length ps = (k, PyStr ?t)
      \<and> fst (snd (add_params_loop url (ps @ (k, PyList vs) # qs))) \<noteq> ps @ (k, PyList vs) # qs"
  proof
    assume h: "py_in ''tag_names'' k \<and> str_items vs = Some ss"
    then have pb: "param_body k (PyList vs) = ([], PyStr ?t, Inr (k @ ?t))"
      by (simp add: param_body_tag_names)
    have e: "fst (snd (add_params_loop url (ps @ (k, PyList vs) # qs))) ! length ps = (k, PyStr ?t)"
      using add_params_loop_next_entry [OF u _ pb] by simp
    have "fst (snd (add_params_loop url (ps @ (k, PyList vs) # qs))) \<noteq> ps @ (k, PyList vs) # qs"
    proof
      assume "fst (snd (add_params_loop url (ps @ (k, PyList vs) # qs))) = ps @ (k, PyList vs) # qs"
      then have "fst (snd (add_params_loop url (ps @ (k, PyList vs) # qs))) ! length ps
          = (k, PyList vs)"
        by simp
      with e show False by simp
    qed
    with e show "fst (snd (add_params_loop url (ps @ (k, PyList vs) # qs))) ! length ps = (k, PyStr ?t)
      \<and> fst (snd (add_params_loop url (ps @ (k, PyList vs) # qs))) \<noteq> ps @ (k, PyList vs) # qs"
      by simp
  qed
  from 1 2 3 show ?thesis
    unfolding add_optional_params_def by (intro conjI)
qed

theorem add_optional_params_mutates_witness:
  "fst (snd (add_optional_params ''releases/dates?''
      [(''&limit='', PyInt 10), (''&include_release_dates_with_no_data='', PyBool True)])) ! 1 =
     (''&include_release_dates_with_no_data='', PyStr ''true'')
   \<and> fst (snd (add_optional_params ''releases/dates?''
      [(''&limit='', PyInt 10), (''&tag_names='', PyList [PyStr ''usa trade''])])) ! 1 =
     (''&tag_names='', PyStr ''usa+trade'')"
proof -
  have 0: "snd (snd (add_optional_params ''releases/dates?'' [(''&limit='', PyInt 10)])) =
      Inr (''releases/dates?&limit='' @ str_int 10)"
    by (simp add: add_optional_params_def param_body_def py_str_def)
  have a: "py_in ''tag_names'' ''&tag_names='' \<and> str_items [PyStr ''usa trade''] = Some [''usa trade'']"
    by simp
  have "py_lower (py_str (PyBool True)) = ''true''"
    by (simp add: py_str_def lower_True)
  moreover have "map (\<lambda>c. if c = CHR '' '' then CHR ''+'' else c) (py_strip (py_join '';'' [''usa trade'']))
      = ''usa+trade''"
    by (simp add: py_strip_def py_isspace_def)
  ultimately show ?thesis
    using add_optional_params_mutates [OF 0, where v = "PyBool True" and qs = "[]"
        and k = "''&tag_names=''" and vs = "[PyStr ''usa trade'']" and ss = "[''usa trade'']"] a
    by simp
qed

section \<open>Realtime dates\<close>

text \<open>
  Claim C10. \<open>_get_realtime_date\<close> discards an argument that is not \<open>None\<close>: the result
  is \<open>&realtime_start=\<close> followed by the default date when the argument is \<open>None\<close> and by
  nothing otherwise, and the same for \<open>&realtime_end=\<close>. The supplied value is not part
  of the result; a default is substituted only for \<open>None\<close>.
\<close>

theorem get_realtime_date_discards:
  "get_realtime_date realtime_start realtime_end =
     ''&realtime_start='' @ (if realtime_start = PyNone then ''1776-07-04'' else [])
       @ ''&realtime_end='' @ (if realtime_end = PyNone then ''9999-12-31'' else [])"
  by (simp add: get_realtime_date_def realtime_start_default_def realtime_end_default_def)

theorem get_realtime_date_discards_witness:
  "get_realtime_date (PyStr ''2020-01-01'') PyNone = ''&realtime_start=&realtime_end=9999-12-31''
   \<and> get_realtime_date PyNone (PyStr ''2020-01-01'') = ''&realtime_start=1776-07-04&realtime_end=''"
  using get_realtime_date_discards [of "PyStr ''2020-01-01''" PyNone]
    get_realtime_date_discards [of PyNone "PyStr ''2020-01-01''"]
  by simp

end
